theory Spec2Isabelle
  imports Complex_Main
begin

section \<open>The Zephara Xcel home financing simulator (ZX.py)\<close>

text \<open>
  The program compares two amortising schemes: the shared-ownership (buyback) model of
  \<^verbatim>\<open>zx_simulator\<close> and the conventional loan of \<^verbatim>\<open>traditional_loan_simulator\<close>.
  Both compute a fixed monthly instalment (EMI) by the annuity formula and then run a loop
  over the months \<^verbatim>\<open>range(1, T + 1)\<close>, appending one entry per month to each column.

  Numbers. The amounts and rates of the program are Python numbers (ints from the integer
  widgets, floats after the first true division). They are modelled as \<^typ>\<open>real\<close>, so
  every theorem below is about the arithmetic the program writes down, evaluated exactly;
  the rounding of binary64 floats and \<^verbatim>\<open>OverflowError\<close> are outside the model. The tenure in
  months is an \<^typ>\<open>int\<close>, as the program passes \<^verbatim>\<open>int(years * 12)\<close>.

  Errors. A Python division whose divisor is zero raises \<^verbatim>\<open>ZeroDivisionError\<close>, and so does
  a zero base raised to a negative integer power; both are results of the model. The three
  early returns of \<^verbatim>\<open>main\<close> after \<^verbatim>\<open>st.error\<close> are the three remaining values of the error
  type.
\<close>

datatype error =
    ZeroDivisionError
  | Contribution_not_below_price
  | Yield_out_of_range
  | Tenure_not_positive

subsection \<open>The instalment\<close>

text \<open>
  The expression of lines 128 and 195,
  \<^verbatim>\<open>EMI = (P * r * (1 + r)**T) / ((1 + r)**T - 1)\<close>,
  is the same in both simulators up to the name of the principal.
\<close>

definition calc_EMI :: "real \<Rightarrow> real \<Rightarrow> int \<Rightarrow> error + real" where
  "calc_EMI P r T =
     (if 1 + r = 0 \<and> T < 0 then Inl ZeroDivisionError
      else if (1 + r) powi T - 1 = 0 then Inl ZeroDivisionError
      else Inr ((P * r * (1 + r) powi T) / ((1 + r) powi T - 1)))"

subsection \<open>The buyback model\<close>

text \<open>
  One row of the data frame of \<^verbatim>\<open>zx_simulator\<close>; the fields are the values appended to
  the eight column lists in one pass of the loop.
\<close>

record zx_row =
  month :: int
  emi :: real
  rental_income :: real
  buyback_amount :: real
  nbfc_share_percentage :: real
  customer_share_percentage :: real
  nbfc_share_value :: real
  customer_share_value :: real

record zx_metrics =
  monthly_payment :: real
  total_emi_paid :: real
  total_rental_income :: real
  total_buyback_amount :: real
  bank_profit :: real

text \<open>
  The simulation loop, lines 145 to 159. The running state is the pair of share values;
  the list argument is what remains of \<^verbatim>\<open>range(1, T + 1)\<close>. The two percentages divide by
  the property price, which raises when the price is zero.
\<close>

fun zx_loop :: "real \<Rightarrow> real \<Rightarrow> real \<Rightarrow> real \<Rightarrow> real \<Rightarrow> int list \<Rightarrow> error + zx_row list" where
  "zx_loop property_price r EMI nbfc_value customer_value [] = Inr []"
| "zx_loop property_price r EMI nbfc_value customer_value (n # ns) =
     (let rental = nbfc_value * r;
          buyback = EMI - rental;
          nbfc_value' = nbfc_value - buyback;
          customer_value' = customer_value + buyback
      in if property_price = 0 then Inl ZeroDivisionError
         else
           (case zx_loop property_price r EMI nbfc_value' customer_value' ns of
              Inl e \<Rightarrow> Inl e
            | Inr rows \<Rightarrow>
                Inr (\<lparr>month = n, emi = EMI, rental_income = rental, buyback_amount = buyback,
                      nbfc_share_percentage = nbfc_value' / property_price * 100,
                      customer_share_percentage = customer_value' / property_price * 100,
                      nbfc_share_value = nbfc_value',
                      customer_share_value = customer_value'\<rparr> # rows)))"

text \<open>
  The metrics, lines 173 to 185: three column sums. The sum of an empty pandas column
  is 0.
\<close>

definition zx_calculate_metrics :: "real \<Rightarrow> zx_row list \<Rightarrow> zx_metrics" where
  "zx_calculate_metrics EMI simulation_df =
     \<lparr>monthly_payment = EMI,
      total_emi_paid = sum_list (map emi simulation_df),
      total_rental_income = sum_list (map rental_income simulation_df),
      total_buyback_amount = sum_list (map buyback_amount simulation_df),
      bank_profit = sum_list (map rental_income simulation_df)\<rparr>"

definition zx_simulator :: "real \<Rightarrow> real \<Rightarrow> real \<Rightarrow> int \<Rightarrow> error + (zx_row list \<times> zx_metrics)" where
  "zx_simulator property_price customer_initial_contribution annual_rental_yield loan_tenure_months =
     (let nbfc_initial_contribution = property_price - customer_initial_contribution;
          r = annual_rental_yield / 12;
          T = loan_tenure_months
      in case calc_EMI nbfc_initial_contribution r T of
           Inl e \<Rightarrow> Inl e
         | Inr EMI \<Rightarrow>
             (case zx_loop property_price r EMI nbfc_initial_contribution
                     customer_initial_contribution [1..T] of
                Inl e \<Rightarrow> Inl e
              | Inr simulation_df \<Rightarrow> Inr (simulation_df, zx_calculate_metrics EMI simulation_df)))"

subsection \<open>The conventional loan\<close>

record loan_row =
  loan_month :: int
  loan_emi :: real
  interest_payment :: real
  principal_payment :: real
  outstanding_balance :: real

record loan_metrics =
  loan_monthly_payment :: real
  loan_total_emi_paid :: real
  total_interest_paid :: real
  total_principal_paid :: real
  loan_bank_profit :: real

text \<open>The simulation loop, lines 208 to 218; the running state is the balance.\<close>

fun traditional_loop :: "real \<Rightarrow> real \<Rightarrow> real \<Rightarrow> int list \<Rightarrow> loan_row list" where
  "traditional_loop r EMI balance [] = []"
| "traditional_loop r EMI balance (n # ns) =
     (let interest = balance * r;
          principal = EMI - interest;
          balance' = balance - principal
      in \<lparr>loan_month = n, loan_emi = EMI, interest_payment = interest,
           principal_payment = principal, outstanding_balance = balance'\<rparr>
         # traditional_loop r EMI balance' ns)"

definition traditional_calculate_metrics :: "real \<Rightarrow> loan_row list \<Rightarrow> loan_metrics" where
  "traditional_calculate_metrics EMI simulation_df =
     \<lparr>loan_monthly_payment = EMI,
      loan_total_emi_paid = sum_list (map loan_emi simulation_df),
      total_interest_paid = sum_list (map interest_payment simulation_df),
      total_principal_paid = sum_list (map principal_payment simulation_df),
      loan_bank_profit = sum_list (map interest_payment simulation_df)\<rparr>"

definition traditional_loan_simulator ::
    "real \<Rightarrow> real \<Rightarrow> int \<Rightarrow> error + (loan_row list \<times> loan_metrics)" where
  "traditional_loan_simulator principal_amount annual_interest_rate loan_tenure_months =
     (let r = annual_interest_rate / 12;
          T = loan_tenure_months
      in case calc_EMI principal_amount r T of
           Inl e \<Rightarrow> Inl e
         | Inr EMI \<Rightarrow>
             (let simulation_df = traditional_loop r EMI principal_amount [1..T]
              in Inr (simulation_df, traditional_calculate_metrics EMI simulation_df)))"

subsection \<open>The caller\<close>

text \<open>
  \<^verbatim>\<open>main\<close>, lines 15 to 51, as a function of the six widget values: the two percentages
  are divided by 100, the inputs are validated, and both simulators run. An early return
  after \<^verbatim>\<open>st.error\<close> is an \<open>Inl\<close>; what is rendered afterwards is not modelled. The
  tenures come from integer widgets, so \<^verbatim>\<open>int(years * 12)\<close> is \<open>years * 12\<close>.
\<close>

definition main ::
    "real \<Rightarrow> real \<Rightarrow> real \<Rightarrow> int \<Rightarrow> real \<Rightarrow> int \<Rightarrow>
     error + ((zx_row list \<times> zx_metrics) \<times> (loan_row list \<times> loan_metrics))" where
  "main property_price customer_initial_contribution rental_yield_percent zx_loan_tenure_years
        interest_rate_percent traditional_loan_tenure_years =
     (let annual_rental_yield = rental_yield_percent / 100;
          traditional_interest_rate = interest_rate_percent / 100
      in if customer_initial_contribution \<ge> property_price then Inl Contribution_not_below_price
         else if annual_rental_yield \<le> 0 \<or> annual_rental_yield \<ge> 1 then Inl Yield_out_of_range
         else if zx_loan_tenure_years \<le> 0 \<or> traditional_loan_tenure_years \<le> 0
           then Inl Tenure_not_positive
         else
           (case zx_simulator property_price customer_initial_contribution annual_rental_yield
                   (zx_loan_tenure_years * 12) of
              Inl e \<Rightarrow> Inl e
            | Inr zx \<Rightarrow>
                (case traditional_loan_simulator
                        (property_price - customer_initial_contribution)
                        traditional_interest_rate (traditional_loan_tenure_years * 12) of
                   Inl e \<Rightarrow> Inl e
                 | Inr traditional \<Rightarrow> Inr (zx, traditional))))"

section \<open>Properties\<close>

subsection \<open>The instalment for a positive rate\<close>

lemma growth_gt_one:
  fixes r :: real
  assumes "0 < r" "1 \<le> T"
  shows "1 < (1 + r) powi T"
proof -
  have "(1 + r) powi T = (1 + r) ^ nat T"
    using assms by (simp add: power_int_def)
  moreover have "1 < (1 + r) ^ nat T"
    using assms by (intro one_less_power) auto
  ultimately show ?thesis by simp
qed

lemma calc_EMI_positive_rate:
  assumes "0 < r" "1 \<le> T"
  shows "calc_EMI P r T = Inr ((P * r * (1 + r) powi T) / ((1 + r) powi T - 1))"
  using growth_gt_one [OF assms] assms by (simp add: calc_EMI_def)

subsection \<open>The loan loop\<close>

lemma length_traditional_loop: "length (traditional_loop r E b ns) = length ns"
  by (induction ns arbitrary: b) (simp_all add: Let_def)





lemma traditional_loop_first_row:
  assumes "1 \<le> T"
  shows "hd (traditional_loop r E b [1..T]) =
    \<lparr>loan_month = 1, loan_emi = E, interest_payment = b * r,
     principal_payment = E - b * r, outstanding_balance = b - (E - b * r)\<rparr>"
proof -
  have "[1..T] = 1 # [1 + 1..T]" using assms by (rule upto_rec1)
  then show ?thesis by (simp add: Let_def)
qed

subsection \<open>The buyback loop\<close>







subsection \<open>The annuity formula\<close>



subsection \<open>Both simulators return on valid inputs\<close>


lemma traditional_loan_simulator_valid:
  assumes "0 < annual_interest_rate" "1 \<le> T"
  obtains E rows where
    "calc_EMI principal_amount (annual_interest_rate / 12) T = Inr E"
    "E = (principal_amount * (annual_interest_rate / 12) * (1 + annual_interest_rate / 12) powi T)
           / ((1 + annual_interest_rate / 12) powi T - 1)"
    "rows = traditional_loop (annual_interest_rate / 12) E principal_amount [1..T]"
    "length rows = nat T"
    "traditional_loan_simulator principal_amount annual_interest_rate T
     = Inr (rows, traditional_calculate_metrics E rows)"
proof -
  define r where "r = annual_interest_rate / 12"
  define E where "E = (principal_amount * r * (1 + r) powi T) / ((1 + r) powi T - 1)"
  define rows where "rows = traditional_loop r E principal_amount [1..T]"
  have r: "0 < r" using assms by (simp add: r_def)
  have emi: "calc_EMI principal_amount r T = Inr E"
    unfolding E_def using calc_EMI_positive_rate [OF r assms(2)] .
  have len: "length rows = nat T"
    using assms(2) by (simp add: rows_def length_traditional_loop)
  have sim: "traditional_loan_simulator principal_amount annual_interest_rate T
     = Inr (rows, traditional_calculate_metrics E rows)"
    using emi by (simp add: traditional_loan_simulator_def Let_def r_def rows_def)
  show thesis
    using that [of E rows] emi len sim
    unfolding r_def E_def rows_def by blast
qed

subsection \<open>The growth factor of the reference loan\<close>

text \<open>
  The factor \<open>(1 + 0.07 / 12) ^ 240\<close> is enclosed by squaring an enclosure of its
  15th root four times, rounding outwards to twelve decimals at each step.
\<close>

lemma square_bounds:
  fixes x :: real
  assumes "lo \<le> x \<and> x \<le> hi" "0 \<le> lo" "lo' \<le> lo * lo" "hi * hi \<le> hi'"
  shows "lo' \<le> x\<^sup>2 \<and> x\<^sup>2 \<le> hi'"
proof -
  have "lo * lo \<le> x * x" using assms(1,2) by (intro mult_mono) auto
  moreover have "x * x \<le> hi * hi" using assms(1,2) by (intro mult_mono) auto
  ultimately show ?thesis using assms(3,4) by (simp add: power2_eq_square)
qed

lemma growth_factor_240:
  "4.038738848935 \<le> (1207 / 1200 :: real) ^ 240 \<and> (1207 / 1200 :: real) ^ 240 \<le> 4.038738849032"
proof -
  define q :: real where "q = 1207 / 1200"
  have b15: "1.091164833061 \<le> q ^ 15 \<and> q ^ 15 \<le> 1.091164833062"
    unfolding q_def by (simp add: power_divide)
  have "q ^ 30 = (q ^ 15)\<^sup>2" by (simp add: power_mult [symmetric])
  then have b30: "1.190640692909 \<le> q ^ 30 \<and> q ^ 30 \<le> 1.190640692912"
    using square_bounds [OF b15, of "1.190640692909" "1.190640692912"] by simp
  have "q ^ 60 = (q ^ 30)\<^sup>2" by (simp add: power_mult [symmetric])
  then have b60: "1.41762525961 \<le> q ^ 60 \<and> q ^ 60 \<le> 1.417625259618"
    using square_bounds [OF b30, of "1.41762525961" "1.417625259618"] by simp
  have "q ^ 120 = (q ^ 60)\<^sup>2" by (simp add: power_mult [symmetric])
  then have b120: "2.009661376684 \<le> q ^ 120 \<and> q ^ 120 \<le> 2.009661376708"
    using square_bounds [OF b60, of "2.009661376684" "2.009661376708"] by simp
  have "q ^ 240 = (q ^ 120)\<^sup>2" by (simp add: power_mult [symmetric])
  then have "4.038738848935 \<le> q ^ 240 \<and> q ^ 240 \<le> 4.038738849032"
    using square_bounds [OF b120, of "4.038738848935" "4.038738849032"] by simp
  then show ?thesis unfolding q_def .
qed


lemma emi_scenario_bounds:
  fixes g :: real
  assumes "4.038738848935 \<le> g \<and> g \<le> 4.038738849032"
  shows "62023.91 < (8000000 * (7 / 100 / 12) * g) / (g - 1)
       \<and> (8000000 * (7 / 100 / 12) * g) / (g - 1) < 62023.92"
proof -
  have pos: "0 < g - 1" using assms by simp
  have "62023.91 * (g - 1) < 8000000 * (7 / 100 / 12) * g" using assms by simp
  moreover have "8000000 * (7 / 100 / 12) * g < 62023.92 * (g - 1)" using assms by simp
  ultimately show ?thesis using pos by (simp only: pos_less_divide_eq pos_divide_less_eq)
qed

subsection \<open>C1: the loan is paid off, and the balance falls every month\<close>



subsection \<open>C2: the two shares always add up to the property\<close>



subsection \<open>C3: a rate of zero\<close>

text \<open>
  Claim C3 says that the payment computed for a periodic rate of exactly 0 is \<open>P / T\<close>.
  The program has no branch for a zero rate: the denominator \<^verbatim>\<open>(1 + r)**T - 1\<close> is then
  zero and the division raises. For a principal of 1200 over 12 months the result is the
  error, not the payment 100.
\<close>

theorem zero_rate_counterexample:
  "calc_EMI 1200 0 12 = Inl ZeroDivisionError \<and> calc_EMI 1200 0 12 \<noteq> Inr (1200 / 12)"
  by (simp add: calc_EMI_def)

text \<open>
  Claim C3, amended. For every principal and every tenure, the payment expression at a
  periodic rate of exactly 0 raises \<^verbatim>\<open>ZeroDivisionError\<close>, and so does each simulator
  called with an annual rate of 0; no payment and no schedule is returned.
\<close>

theorem zero_rate_raises:
  "calc_EMI P 0 T = Inl ZeroDivisionError
   \<and> traditional_loan_simulator P 0 T = Inl ZeroDivisionError
   \<and> zx_simulator property_price customer_initial_contribution 0 T = Inl ZeroDivisionError"
  by (simp add: calc_EMI_def traditional_loan_simulator_def zx_simulator_def)

subsection \<open>C4: where invalid inputs are rejected\<close>

text \<open>
  Claim C4 says that the buyback simulator itself rejects a contribution that is not
  below the price, a yield outside the open interval from 0 to 1 and a tenure that is not
  positive. \<^verbatim>\<open>zx_simulator\<close> checks nothing: with a contribution equal to the price of 1000
  it returns a one-row schedule for a lender share of zero.
\<close>

theorem zx_simulator_unvalidated_counterexample:
  "zx_simulator 1000 1000 (12 / 100) 1 =
     Inr ([\<lparr>month = 1, emi = 0, rental_income = 0, buyback_amount = 0,
            nbfc_share_percentage = 0, customer_share_percentage = 100,
            nbfc_share_value = 0, customer_share_value = 1000\<rparr>],
          \<lparr>monthly_payment = 0, total_emi_paid = 0, total_rental_income = 0,
           total_buyback_amount = 0, bank_profit = 0\<rparr>)"
  by (simp add: zx_simulator_def calc_EMI_def zx_calculate_metrics_def Let_def)

text \<open>
  Claim C4, amended. The validation is the caller's: \<^verbatim>\<open>main\<close> stops after an error
  message, before either simulator runs and so without any schedule, whenever the customer
  contribution is at least the property price, the annual rental yield (the percentage
  entered, divided by 100) is at most 0 or at least 1, or the tenure of the buyback model
  in years is at most 0.
\<close>

theorem main_rejects_invalid_input:
  assumes "customer_initial_contribution \<ge> property_price
         \<or> rental_yield_percent / 100 \<le> 0 \<or> rental_yield_percent / 100 \<ge> 1
         \<or> zx_loan_tenure_years \<le> 0"
  shows "main property_price customer_initial_contribution rental_yield_percent
           zx_loan_tenure_years interest_rate_percent traditional_loan_tenure_years
         \<in> {Inl Contribution_not_below_price, Inl Yield_out_of_range, Inl Tenure_not_positive}"
  using assms by (auto simp: main_def Let_def)

theorem main_rejects_invalid_input_witness:
  "((1000::real) \<ge> 1000 \<or> (12::real) / 100 \<le> 0 \<or> (12::real) / 100 \<ge> 1 \<or> (1::int) \<le> 0)
   \<and> main 1000 1000 12 1 7 1
         \<in> {Inl Contribution_not_below_price, Inl Yield_out_of_range, Inl Tenure_not_positive}"
  using main_rejects_invalid_input [of 1000 1000 12 1 7 1] by simp

subsection \<open>C5: every payment is the sum of its two components\<close>



subsection \<open>C6: ownership moves one way only\<close>



subsection \<open>C7: the totals reconcile\<close>



subsection \<open>C8: the reference loan of 8,000,000 at 7 percent over 240 months\<close>

lemma loan_scenario:
  "\<exists>E rows.
     traditional_loan_simulator 8000000 (7 / 100) 240
       = Inr (rows, traditional_calculate_metrics E rows)
   \<and> length rows = 240
   \<and> interest_payment (hd rows) = 140000 / 3
   \<and> principal_payment (hd rows) = E - 140000 / 3
   \<and> 62023.91 < E \<and> E < 62023.92"
proof -
  obtain E rows where
    E: "E = (8000000 * (7 / 100 / 12) * (1 + 7 / 100 / 12) powi 240)
           / ((1 + 7 / 100 / 12) powi 240 - 1)"
    and rows: "rows = traditional_loop (7 / 100 / 12) E 8000000 [1..240]"
    and len: "length rows = nat 240"
    and sim: "traditional_loan_simulator 8000000 (7 / 100) 240
     = Inr (rows, traditional_calculate_metrics E rows)"
    using traditional_loan_simulator_valid [of "7 / 100" 240 8000000] by auto
  have g: "(1 + 7 / 100 / 12 :: real) powi 240 = (1207 / 1200) ^ 240"
    by (simp add: power_int_def)
  have bounds: "62023.91 < E \<and> E < 62023.92"
    unfolding E g using emi_scenario_bounds [OF growth_factor_240] .
  have first: "hd rows =
    \<lparr>loan_month = 1, loan_emi = E, interest_payment = 8000000 * (7 / 100 / 12),
     principal_payment = E - 8000000 * (7 / 100 / 12),
     outstanding_balance = 8000000 - (E - 8000000 * (7 / 100 / 12))\<rparr>"
    unfolding rows by (rule traditional_loop_first_row) simp
  have "interest_payment (hd rows) = 140000 / 3"
    "principal_payment (hd rows) = E - 140000 / 3"
    unfolding first by simp_all
  with sim len bounds show ?thesis by auto
qed

text \<open>
  Claim C8 gives a monthly payment of about 62,023.76 and a first principal component of
  about 15,357.09. The annuity formula of the program gives a payment between 62,023.91
  and 62,023.92, so both figures are off by more than 0.15.
\<close>

theorem loan_scenario_counterexample:
  "0.15 < loan_monthly_payment (snd (projr (traditional_loan_simulator 8000000 (7 / 100) 240)))
            - 62023.76
   \<and> 0.15 < principal_payment (hd (fst (projr (traditional_loan_simulator 8000000 (7 / 100) 240))))
            - 15357.09"
proof -
  obtain E rows where
    sim: "traditional_loan_simulator 8000000 (7 / 100) 240
       = Inr (rows, traditional_calculate_metrics E rows)"
    and p: "principal_payment (hd rows) = E - 140000 / 3"
    and E: "62023.91 < E"
    using loan_scenario by blast
  have "loan_monthly_payment (traditional_calculate_metrics E rows) = E"
    by (simp add: traditional_calculate_metrics_def)
  then show ?thesis unfolding sim using p E by simp
qed

text \<open>
  Claim C8, amended. For a principal of 8,000,000, an annual interest rate of 0.07 and
  240 months, the simulator returns 240 rows with a monthly payment of 62,023.91, a
  first-period interest of 46,666.67 and a first-period principal component of 15,357.25,
  each to within 0.01.
\<close>

theorem loan_scenario_values:
  "\<exists>rows metrics.
     traditional_loan_simulator 8000000 (7 / 100) 240 = Inr (rows, metrics)
   \<and> length rows = 240
   \<and> \<bar>loan_monthly_payment metrics - 62023.91\<bar> < 0.01
   \<and> \<bar>interest_payment (hd rows) - 46666.67\<bar> < 0.01
   \<and> \<bar>principal_payment (hd rows) - 15357.25\<bar> < 0.01"
proof -
  obtain E rows where
    sim: "traditional_loan_simulator 8000000 (7 / 100) 240
       = Inr (rows, traditional_calculate_metrics E rows)"
    and len: "length rows = 240"
    and i: "interest_payment (hd rows) = 140000 / 3"
    and p: "principal_payment (hd rows) = E - 140000 / 3"
    and E: "62023.91 < E" "E < 62023.92"
    using loan_scenario by blast
  have pay: "loan_monthly_payment (traditional_calculate_metrics E rows) = E"
    by (simp add: traditional_calculate_metrics_def)
  have "\<bar>E - 62023.91\<bar> < 0.01"
    unfolding abs_less_iff using E by simp
  moreover have "\<bar>interest_payment (hd rows) - 46666.67\<bar> < 0.01"
    unfolding i abs_less_iff by simp
  moreover have "\<bar>principal_payment (hd rows) - 15357.25\<bar> < 0.01"
    unfolding p abs_less_iff using E by simp
  ultimately show ?thesis using sim len pay by auto
qed

subsection \<open>C9: the metrics of an empty schedule\<close>

text \<open>
  Claim C9 says that aggregating a schedule without rows fails with an empty-schedule
  error. The program has no such error: the column sums of an empty data frame are 0.
  A negative tenure gives an empty \<^verbatim>\<open>range(1, T + 1)\<close>, and \<^verbatim>\<open>zx_simulator\<close> then returns
  the empty schedule together with its metrics.
\<close>

theorem empty_schedule_counterexample:
  "zx_simulator 1000 200 (1 / 2) (- 1) =
     Inr ([], \<lparr>monthly_payment = - 800, total_emi_paid = 0, total_rental_income = 0,
               total_buyback_amount = 0, bank_profit = 0\<rparr>)"
  by (simp add: zx_simulator_def calc_EMI_def zx_calculate_metrics_def Let_def power_int_def)

text \<open>
  Claim C9, amended. The aggregation of the metrics has no error path at all: it is a
  total function of the payment and the schedule, and on a schedule with zero rows it
  returns the payment together with totals and a bank profit of 0, for both models.
\<close>

theorem metrics_of_empty_schedule:
  "zx_calculate_metrics E [] =
     \<lparr>monthly_payment = E, total_emi_paid = 0, total_rental_income = 0,
      total_buyback_amount = 0, bank_profit = 0\<rparr>
   \<and> traditional_calculate_metrics E [] =
     \<lparr>loan_monthly_payment = E, loan_total_emi_paid = 0, total_interest_paid = 0,
      total_principal_paid = 0, loan_bank_profit = 0\<rparr>"
  by (simp add: zx_calculate_metrics_def traditional_calculate_metrics_def)

subsection \<open>C10: the buyback schedule is the loan schedule of the lender's share\<close>



end
